theory Spec2Isabelle
  imports Main "HOL-Library.AList"
begin

section \<open>Python values, dictionaries and exceptions\<close>

text \<open>
  The application (app/main.py) works on dynamically typed values: user records and token
  payloads are \<^verbatim>\<open>dict\<close>s from strings to values, read with \<^verbatim>\<open>d.get(k)\<close>,
  \<^verbatim>\<open>d.get(k, default)\<close> and \<^verbatim>\<open>d[k]\<close>, and tested with \<^verbatim>\<open>not x\<close>.
  The values that occur in the records (strings, booleans) and the ones that decide a
  truth test (\<^verbatim>\<open>None\<close>, numbers) are modelled. An instant (\<^verbatim>\<open>datetime\<close>) is its
  POSIX timestamp in whole seconds, the resolution of the \<^verbatim>\<open>exp\<close> claim; a
  \<^verbatim>\<open>timedelta\<close> is a number of seconds.
\<close>

datatype pyval = PNone | PBool bool | PInt int | PStr string

text \<open>The truth value Python gives a value: \<^verbatim>\<open>not x\<close> is \<open>\<not> truthy x\<close>.\<close>

fun truthy :: "pyval \<Rightarrow> bool" where
  "truthy PNone = False"
| "truthy (PBool b) = b"
| "truthy (PInt i) = (i \<noteq> 0)"
| "truthy (PStr s) = (s \<noteq> [])"

text \<open>Decimal digits of a natural number, for \<^verbatim>\<open>str(n)\<close>.\<close>

fun digits :: "nat \<Rightarrow> string" where
  "digits n = (if n < 10 then [char_of (48 + n)]
               else digits (n div 10) @ [char_of (48 + n mod 10)])"

declare digits.simps [simp del]

text \<open>\<^verbatim>\<open>str(x)\<close>, which is what an f-string \<^verbatim>\<open>f"{x}"\<close> inserts.\<close>

fun py_str :: "pyval \<Rightarrow> string" where
  "py_str PNone = ''None''"
| "py_str (PBool b) = (if b then ''True'' else ''False'')"
| "py_str (PInt i) = (if i < 0 then ''-'' @ digits (nat (- i)) else digits (nat i))"
| "py_str (PStr s) = s"

text \<open>
  A dictionary keeps its keys in insertion order; assigning to a key that is present
  replaces the value in place, assigning to a new key appends it. That is
  \<^const>\<open>AList.update\<close> on an association list, read with \<^const>\<open>map_of\<close>.
\<close>

type_synonym pydict = "(string \<times> pyval) list"

datatype exn =
    HTTPException int string
  | KeyError string
  | LibraryError string

text \<open>\<^verbatim>\<open>d.get(k)\<close>: the value, or \<^verbatim>\<open>None\<close> when the key is missing.\<close>

definition dict_get :: "pydict \<Rightarrow> string \<Rightarrow> pyval" where
  "dict_get d k = (case map_of d k of None \<Rightarrow> PNone | Some v \<Rightarrow> v)"

text \<open>\<^verbatim>\<open>d.get(k, default)\<close>.\<close>

definition dict_get_default :: "pydict \<Rightarrow> string \<Rightarrow> pyval \<Rightarrow> pyval" where
  "dict_get_default d k dflt = (case map_of d k of None \<Rightarrow> dflt | Some v \<Rightarrow> v)"

text \<open>\<^verbatim>\<open>d[k]\<close>: raises \<^verbatim>\<open>KeyError\<close> when the key is missing.\<close>

definition dict_index :: "pydict \<Rightarrow> string \<Rightarrow> exn + pyval" where
  "dict_index d k = (case map_of d k of None \<Rightarrow> Inl (KeyError k) | Some v \<Rightarrow> Inr v)"

text \<open>\<^verbatim>\<open>d.update(other)\<close> as a function of the two dictionaries' contents.\<close>

definition update_all :: "pydict \<Rightarrow> pydict \<Rightarrow> pydict" where
  "update_all d other = fold (\<lambda>(k, v). AList.update k v) other d"

text \<open>
  The status code the framework answers with: the one of a raised \<^verbatim>\<open>HTTPException\<close>,
  500 for any other exception that leaves the handler, 200 for a returned payload.
\<close>

fun status_of :: "exn + 'a \<Rightarrow> int" where
  "status_of (Inl (HTTPException code detail)) = code"
| "status_of (Inl (KeyError k)) = 500"
| "status_of (Inl (LibraryError m)) = 500"
| "status_of (Inr payload) = 200"

section \<open>Objects that are mutated: a heap of dictionaries\<close>

text \<open>
  \<^verbatim>\<open>create_access_token\<close> receives a reference to the caller's dictionary, copies it
  and updates the copy. Whether the caller's dictionary changes is a question of aliasing,
  so the dictionaries this function touches live in a heap: a list of dictionaries, a
  reference being an index into it. References are only ever made by \<open>heap_new\<close>, so a
  live reference is below the length of the heap.
\<close>

type_synonym ref = nat
type_synonym heap = "pydict list"

definition heap_new :: "heap \<Rightarrow> pydict \<Rightarrow> ref \<times> heap" where
  "heap_new h d = (length h, h @ [d])"

text \<open>\<^verbatim>\<open>data.copy()\<close>: a new dictionary with the same entries.\<close>

definition dict_copy :: "heap \<Rightarrow> ref \<Rightarrow> ref \<times> heap" where
  "dict_copy h r = heap_new h (h ! r)"

text \<open>\<^verbatim>\<open>d.update(other)\<close> on the object \<open>r\<close> refers to.\<close>

definition dict_update :: "heap \<Rightarrow> ref \<Rightarrow> pydict \<Rightarrow> heap" where
  "dict_update h r other = h[r := update_all (h ! r) other]"

section \<open>Signed tokens\<close>

text \<open>
  Modelled from the spec: \<^verbatim>\<open>jwt.encode\<close> and \<^verbatim>\<open>jwt.decode\<close> belong to the JWT
  library that main.py imports; their code is not part of the repository. The model is
  symbolic and follows the spec's section 4.1: a token is either a signed object that
  carries its header algorithm, its claim set and the key its signature was made with, or
  a string that does not parse. A signature verifies under a key exactly when it was made
  with that key (the signature is unforgeable without the secret). Decoding checks, in
  this order: that the token parses, that its algorithm is one of the accepted ones, that
  the signature verifies, and then that the current time is before \<^verbatim>\<open>exp\<close> when the
  claim is there (expired when the current time is at or past it; an \<^verbatim>\<open>exp\<close> that is
  not a number is refused as undecodable). The library's exceptions all derive from
  \<^verbatim>\<open>PyJWTError\<close>.
\<close>

datatype jwt = Jws string pydict string | Unparsable string

datatype jwt_error =
    ExpiredSignatureError
  | InvalidSignatureError
  | InvalidAlgorithmError
  | DecodeError

definition jwt_encode :: "pydict \<Rightarrow> string \<Rightarrow> string \<Rightarrow> jwt" where
  "jwt_encode payload key algorithm = Jws algorithm payload key"

fun jwt_decode :: "jwt \<Rightarrow> string \<Rightarrow> string list \<Rightarrow> int \<Rightarrow> jwt_error + pydict" where
  "jwt_decode (Unparsable s) key algorithms now = Inl DecodeError"
| "jwt_decode (Jws alg payload signed_with) key algorithms now =
     (if alg \<notin> set algorithms then Inl InvalidAlgorithmError
      else if signed_with \<noteq> key then Inl InvalidSignatureError
      else (case map_of payload ''exp'' of
              None \<Rightarrow> Inr payload
            | Some (PInt e) \<Rightarrow> if e \<le> now then Inl ExpiredSignatureError else Inr payload
            | Some other \<Rightarrow> Inl DecodeError))"

section \<open>Settings, schemas and collaborators of app/main.py\<close>

definition SECRET_KEY :: string where
  "SECRET_KEY = ''your-secret-key''"

definition ALGORITHM :: string where
  "ALGORITHM = ''HS256''"

definition ACCESS_TOKEN_EXPIRE_MINUTES :: int where
  "ACCESS_TOKEN_EXPIRE_MINUTES = 2"

text \<open>\<^verbatim>\<open>timedelta(minutes=m)\<close>, in seconds.\<close>

definition timedelta_minutes :: "int \<Rightarrow> int" where
  "timedelta_minutes m = m * 60"

record Token =
  access_token :: jwt
  token_type :: string

record LoginRequest =
  username :: string
  password :: string

text \<open>
  The store is the Memcached server behind the client \<^verbatim>\<open>mc\<close>. \<^verbatim>\<open>mc.get(key)\<close> gives
  the dictionary stored under the key, or \<^verbatim>\<open>None\<close>; it raises when the client refuses
  the key, which it decides before anything is sent to the server. The application only
  reads the store, and no handler of the application catches what \<^verbatim>\<open>mc.get\<close> raises.
\<close>

type_synonym memcache = "string \<Rightarrow> exn + pydict option"

text \<open>
  The hashing primitive \<^verbatim>\<open>pwd_context.verify\<close> is a parameter of the model: a function
  of the plain password and the stored value that answers a boolean or raises.

  What a request does besides computing its answer is recorded as a list of events:
  the keys it reads from the store and the password verifications it runs. (The debugging
  \<^verbatim>\<open>print\<close> of \<^verbatim>\<open>get_user\<close> is left out.)
\<close>

type_synonym verifier = "string \<Rightarrow> pyval \<Rightarrow> exn + bool"

datatype event = McGet string | PwdVerify string pyval

section \<open>Helper functions of app/main.py\<close>

text \<open>
  \<^verbatim>\<open>expires_delta or timedelta(minutes=ACCESS_TOKEN_EXPIRE_MINUTES)\<close>: the default is
  taken when the argument is \<^verbatim>\<open>None\<close>, and also when it is the zero duration, which
  Python counts as false.
\<close>

definition create_access_token :: "heap \<Rightarrow> ref \<Rightarrow> int option \<Rightarrow> int \<Rightarrow> jwt \<times> heap" where
  "create_access_token h data expires_delta now =
     (case dict_copy h data of (to_encode, h1) \<Rightarrow>
        let expire = now + (case expires_delta of
                              None \<Rightarrow> timedelta_minutes ACCESS_TOKEN_EXPIRE_MINUTES
                            | Some d \<Rightarrow> if d = 0 then timedelta_minutes ACCESS_TOKEN_EXPIRE_MINUTES
                                        else d);
            h2 = dict_update h1 to_encode [(''exp'', PInt expire)]
        in (jwt_encode (h2 ! to_encode) SECRET_KEY ALGORITHM, h2))"

definition verify_password :: "verifier \<Rightarrow> string \<Rightarrow> pyval \<Rightarrow> (exn + bool) \<times> event list" where
  "verify_password pwd_verify plain hashed = (pwd_verify plain hashed, [PwdVerify plain hashed])"

text \<open>
  \<^verbatim>\<open>get_user\<close>: one \<^verbatim>\<open>mc.get\<close>. The read is an event of the request when the client
  sends it; an exception of the client leaves the function as it is.
\<close>

definition get_user :: "memcache \<Rightarrow> pyval \<Rightarrow> (exn + pydict option) \<times> event list" where
  "get_user mc uname =
     (case mc (''user:'' @ py_str uname) of
        Inl e \<Rightarrow> (Inl e, [])
      | Inr user \<Rightarrow> (Inr user, [McGet (''user:'' @ py_str uname)]))"

text \<open>
  \<^verbatim>\<open>get_current_user\<close>. The two \<^verbatim>\<open>except\<close> clauses catch the JWT library's
  exceptions only, the expired one first; the \<^verbatim>\<open>HTTPException\<close>s raised inside the
  \<^verbatim>\<open>try\<close> and an exception of \<^verbatim>\<open>get_user\<close> pass through them. \<^verbatim>\<open>not user\<close> holds
  for \<^verbatim>\<open>None\<close> and for an empty dictionary.
\<close>

definition get_current_user :: "memcache \<Rightarrow> int \<Rightarrow> jwt \<Rightarrow> (exn + pydict) \<times> event list" where
  "get_current_user mc now tok =
     (case jwt_decode tok SECRET_KEY [ALGORITHM] now of
        Inl ExpiredSignatureError \<Rightarrow> (Inl (HTTPException 401 ''Token expired''), [])
      | Inl other \<Rightarrow> (Inl (HTTPException 401 ''Invalid token''), [])
      | Inr payload \<Rightarrow>
          let uname = dict_get payload ''sub'' in
          if \<not> truthy uname then (Inl (HTTPException 401 ''Invalid token payload''), [])
          else (case get_user mc uname of
                  (Inl e, tr) \<Rightarrow> (Inl e, tr)
                | (Inr None, tr) \<Rightarrow> (Inl (HTTPException 404 ''User not found''), tr)
                | (Inr (Some user), tr) \<Rightarrow>
                    if user = [] then (Inl (HTTPException 404 ''User not found''), tr)
                    else (Inr user, tr)))"

section \<open>Routes of app/main.py\<close>

text \<open>
  \<^verbatim>\<open>POST /token\<close>. The \<^verbatim>\<open>or\<close> of the test is short-circuit: the password is
  verified only when the store has a non-empty record. The dictionary literal passed to
  \<^verbatim>\<open>create_access_token\<close> is a new object of the request. Nothing is caught: an
  exception of \<^verbatim>\<open>get_user\<close>, of the verifier or of \<^verbatim>\<open>user["username"]\<close> leaves the
  route.
\<close>

definition login :: "verifier \<Rightarrow> memcache \<Rightarrow> int \<Rightarrow> LoginRequest \<Rightarrow> (exn + Token) \<times> event list" where
  "login pwd_verify mc now form =
     (case get_user mc (PStr (username form)) of
        (Inl e, tr) \<Rightarrow> (Inl e, tr)
      | (Inr None, tr) \<Rightarrow> (Inl (HTTPException 401 ''Incorrect username or password''), tr)
      | (Inr (Some user), tr) \<Rightarrow>
          if user = [] then (Inl (HTTPException 401 ''Incorrect username or password''), tr)
          else (case verify_password pwd_verify (password form)
                       (dict_get_default user ''hashed_password'' (PStr [])) of
                  (Inl e, tv) \<Rightarrow> (Inl e, tr @ tv)
                | (Inr ok, tv) \<Rightarrow>
                    if \<not> ok then (Inl (HTTPException 401 ''Incorrect username or password''), tr @ tv)
                    else (case dict_index user ''username'' of
                            Inl e \<Rightarrow> (Inl e, tr @ tv)
                          | Inr sub \<Rightarrow>
                              (case heap_new [] [(''sub'', sub)] of (data, h) \<Rightarrow>
                                 (Inr \<lparr>access_token = fst (create_access_token h data None now),
                                       token_type = ''bearer''\<rparr>, tr @ tv)))))"

text \<open>\<^verbatim>\<open>GET /protected\<close>, after the dependency has produced the user.\<close>

definition protected_route :: "pydict \<Rightarrow> exn + pydict" where
  "protected_route user =
     (case dict_index user ''full_name'' of
        Inl e \<Rightarrow> Inl e
      | Inr n \<Rightarrow> Inr [(''message'', PStr (''Hello, '' @ py_str n @ ''! This is a protected endpoint.''))])"

text \<open>\<^verbatim>\<open>GET /protected2\<close>, after the dependency has produced the user.\<close>

definition protected_admin_route :: "pydict \<Rightarrow> exn + pydict" where
  "protected_admin_route user =
     (if \<not> truthy (dict_get user ''admin'') then Inl (HTTPException 403 ''Admin access required'')
      else (case dict_index user ''full_name'' of
              Inl e \<Rightarrow> Inl e
            | Inr n \<Rightarrow>
                Inr [(''message'',
                      PStr (''Welcome Admin '' @ py_str n @ ''! You have access to this route.''))]))"

text \<open>
  A request to a protected route: \<^verbatim>\<open>Depends(get_current_user)\<close> runs first, and the
  route body runs only when it returned a user.
\<close>

definition depends_get_current_user ::
  "(pydict \<Rightarrow> exn + pydict) \<Rightarrow> memcache \<Rightarrow> int \<Rightarrow> jwt \<Rightarrow> (exn + pydict) \<times> event list" where
  "depends_get_current_user route mc now tok =
     (case get_current_user mc now tok of
        (Inl e, tr) \<Rightarrow> (Inl e, tr)
      | (Inr user, tr) \<Rightarrow> (route user, tr))"

section \<open>The seeded store of app/preload_memcache.py\<close>

text \<open>
  For concrete instances only. The theorems below hold for every verifier and every
  client; the definitions of this section give them inputs to run on.

  \<open>hash_pw\<close> and \<open>demo_verify\<close> stand in for bcrypt (\<^verbatim>\<open>pwd_context.hash\<close> and
  \<^verbatim>\<open>pwd_context.verify\<close>). Like the library, the stand-in answers false for the stored
  value \<^verbatim>\<open>None\<close>, raises when the stored value is not a hash it recognises (the empty
  string is not one) and raises on a password that holds a NUL byte.
\<close>

definition hash_pw :: "string \<Rightarrow> string" where
  "hash_pw pw = ''bcrypt:'' @ pw"

definition demo_verify :: verifier where
  "demo_verify plain hashed =
     (case hashed of
        PNone \<Rightarrow> Inr False
      | PStr h \<Rightarrow>
          if take 7 h \<noteq> ''bcrypt:'' then Inl (LibraryError ''UnknownHashError'')
          else if CHR 0x00 \<in> set plain then Inl (LibraryError ''PasswordValueError'')
          else Inr (h = hash_pw plain)
      | other \<Rightarrow> Inl (LibraryError ''ExpectedStringError''))"

definition john :: pydict where
  "john = [(''username'', PStr ''john''), (''full_name'', PStr ''John Doe''),
           (''email'', PStr ''johndoe@example.com''),
           (''hashed_password'', PStr (hash_pw ''johnpword'')),
           (''admin'', PBool True), (''disabled'', PBool False)]"

definition jane :: pydict where
  "jane = [(''username'', PStr ''jane''), (''full_name'', PStr ''Jane Doe''),
           (''email'', PStr ''janedoe@example.com''),
           (''hashed_password'', PStr (hash_pw ''janepword'')),
           (''admin'', PBool False), (''disabled'', PBool False)]"

definition fake_users_db :: "(string \<times> pydict) list" where
  "fake_users_db = [(''john'', john), (''jane'', jane)]"

text \<open>
  The seeding loop: \<^verbatim>\<open>mc.set(f"user:{username}", user, time=0)\<close> for every item, on an
  empty server. (The list of usernames it also stores under \<^verbatim>\<open>users:index\<close> is not a
  user record, and no key \<^verbatim>\<open>user:...\<close> can reach it.)
\<close>

definition preload :: "(string \<times> pydict) list \<Rightarrow> (string \<Rightarrow> pydict option)" where
  "preload db = fold (\<lambda>(uname, user) srv. srv(''user:'' @ uname \<mapsto> user)) db Map.empty"

text \<open>
  The client library (python-memcached, imported by main.py; its code is not part of the
  repository) checks a key before it sends it: a key longer than 250 bytes, or one that
  holds a space, a control character or DEL, is refused with an exception. A key it accepts
  is looked up on the server.
\<close>

definition key_refused :: "string \<Rightarrow> bool" where
  "key_refused key =
     (250 < length key \<or> list_ex (\<lambda>c. of_char c \<le> (32::nat) \<or> of_char c = (127::nat)) key)"

definition mc_client :: "(string \<Rightarrow> pydict option) \<Rightarrow> memcache" where
  "mc_client srv key =
     (if key_refused key then Inl (LibraryError ''MemcachedKeyError'') else Inr (srv key))"

definition seeded_mc :: memcache where
  "seeded_mc = mc_client (preload fake_users_db)"

text \<open>
  A store whose only record is kept under the empty username: a well-formed record, with
  every field of the seeded ones.
\<close>

definition nameless :: pydict where
  "nameless = [(''username'', PStr []), (''full_name'', PStr ''No Name''),
               (''email'', PStr ''noname@example.com''),
               (''hashed_password'', PStr (hash_pw ''pword'')),
               (''admin'', PBool False), (''disabled'', PBool False)]"

definition nameless_db :: memcache where
  "nameless_db = mc_client (map_of [(''user:'', nameless)])"

text \<open>A store with an administrator whose record has no \<^verbatim>\<open>full_name\<close>.\<close>

definition root_user :: pydict where
  "root_user = [(''username'', PStr ''root''),
                (''hashed_password'', PStr (hash_pw ''rootpword'')),
                (''admin'', PBool True), (''disabled'', PBool False)]"

definition root_db :: memcache where
  "root_db = mc_client (map_of [(''user:root'', root_user)])"

section \<open>What the helper functions compute\<close>

text \<open>
  \<^verbatim>\<open>create_access_token\<close> on a live reference: the token signs the caller's entries with
  \<^verbatim>\<open>exp\<close> set, and the heap grows by that one dictionary.
\<close>

lemma create_access_token_eq:
  "data < length h \<Longrightarrow>
   create_access_token h data expires_delta now =
     (let expire = now + (case expires_delta of None \<Rightarrow> 120 | Some d \<Rightarrow> if d = 0 then 120 else d);
          d' = AList.update ''exp'' (PInt expire) (h ! data)
      in (jwt_encode d' SECRET_KEY ALGORITHM, h @ [d']))"
  by (simp add: create_access_token_def dict_copy_def heap_new_def dict_update_def update_all_def
      ACCESS_TOKEN_EXPIRE_MINUTES_def
      timedelta_minutes_def Let_def nth_append split: option.splits)

text \<open>Decoding a token that was signed with the application's key and algorithm.\<close>

lemma decode_signed:
  "jwt_decode (jwt_encode p SECRET_KEY ALGORITHM) SECRET_KEY [ALGORITHM] now =
     (case map_of p ''exp'' of
        None \<Rightarrow> Inr p
      | Some (PInt e) \<Rightarrow> if e \<le> now then Inl ExpiredSignatureError else Inr p
      | Some other \<Rightarrow> Inl DecodeError)"
  by (simp add: jwt_encode_def)

lemma decode_other_key:
  "key \<noteq> SECRET_KEY \<Longrightarrow>
   jwt_decode (jwt_encode p key ALGORITHM) SECRET_KEY [ALGORITHM] now = Inl InvalidSignatureError"
  by (simp add: jwt_encode_def)

text \<open>\<^verbatim>\<open>get_current_user\<close> once the token has decoded to a payload.\<close>

lemma get_current_user_decoded:
  "jwt_decode tok SECRET_KEY [ALGORITHM] now = Inr payload \<Longrightarrow>
   get_current_user mc now tok =
     (if \<not> truthy (dict_get payload ''sub'') then (Inl (HTTPException 401 ''Invalid token payload''), [])
      else (case mc (''user:'' @ py_str (dict_get payload ''sub'')) of
              Inl e \<Rightarrow> (Inl e, [])
            | Inr None \<Rightarrow>
                (Inl (HTTPException 404 ''User not found''),
                 [McGet (''user:'' @ py_str (dict_get payload ''sub''))])
            | Inr (Some user) \<Rightarrow>
                if user = []
                then (Inl (HTTPException 404 ''User not found''),
                      [McGet (''user:'' @ py_str (dict_get payload ''sub''))])
                else (Inr user, [McGet (''user:'' @ py_str (dict_get payload ''sub''))])))"
  by (simp add: get_current_user_def get_user_def Let_def split: option.splits sum.splits)

text \<open>
  The outcomes of a login, by what the lookup and the verifier answer: a token for the
  record's username, the verifier's refusal or exception, the generic 401 without any
  verification, or the client's exception.
\<close>

lemma login_issued:
  assumes "mc (''user:'' @ uname) = Inr (Some user)"
      and "map_of user ''username'' = Some sub"
      and "pwd_verify pw (dict_get_default user ''hashed_password'' (PStr [])) = Inr True"
  shows "login pwd_verify mc now \<lparr>username = uname, password = pw\<rparr> =
           (Inr \<lparr>access_token = jwt_encode [(''sub'', sub), (''exp'', PInt (now + 120))] SECRET_KEY ALGORITHM,
                 token_type = ''bearer''\<rparr>,
            [McGet (''user:'' @ uname),
             PwdVerify pw (dict_get_default user ''hashed_password'' (PStr []))])"
proof -
  from assms(2) have ne: "user \<noteq> []" by auto
  have tok: "create_access_token [[(''sub'', sub)]] 0 None now =
      (jwt_encode [(''sub'', sub), (''exp'', PInt (now + 120))] SECRET_KEY ALGORITHM,
       [[(''sub'', sub)], [(''sub'', sub), (''exp'', PInt (now + 120))]])"
    by (simp add: create_access_token_eq Let_def)
  show ?thesis
    using assms ne
    by (simp add: login_def get_user_def verify_password_def dict_index_def heap_new_def tok)
qed


lemma login_no_record:
  assumes "mc (''user:'' @ uname) = Inr None \<or> mc (''user:'' @ uname) = Inr (Some [])"
  shows "login pwd_verify mc now \<lparr>username = uname, password = pw\<rparr> =
           (Inl (HTTPException 401 ''Incorrect username or password''), [McGet (''user:'' @ uname)])"
  using assms by (auto simp add: login_def get_user_def)




text \<open>
  The client answers for the server on the keys it accepts. After seeding, the store
  holds john and jane, and nothing else.
\<close>

lemma mc_client_accepted:
  "\<not> key_refused key \<Longrightarrow> mc_client srv key = Inr (srv key)"
  by (simp add: mc_client_def)


lemma seeded_mc_accepted:
  "\<not> key_refused k \<Longrightarrow>
   seeded_mc k =
     Inr (if k = ''user:jane'' then Some jane else if k = ''user:john'' then Some john else None)"
  by (simp add: seeded_mc_def mc_client_def preload_def fake_users_db_def)

lemma seeded_keys:
  "\<not> key_refused ''user:john''" "\<not> key_refused ''user:jane''"
  "\<not> key_refused ''user:ghost''" "\<not> key_refused ''user:mallory''"
  "key_refused ''user:john doe''"
  by (simp_all add: key_refused_def)

text \<open>
  Every failure of \<^verbatim>\<open>get_current_user\<close> is one of four exceptions of its own (three
  carry the status 401, the one for a user the store lacks carries 404) or an exception
  of the store client.
\<close>

lemma get_current_user_failures:
  "fst (get_current_user mc now tok) = Inl e \<Longrightarrow>
     e = HTTPException 401 ''Token expired'' \<or> e = HTTPException 401 ''Invalid token'' \<or>
     e = HTTPException 401 ''Invalid token payload'' \<or> e = HTTPException 404 ''User not found'' \<or>
     (\<exists>key. mc key = Inl e)"
  by (auto simp add: get_current_user_def get_user_def Let_def
      split: sum.splits jwt_error.splits option.splits if_splits)

section \<open>Authentication failures and their status codes\<close>

text \<open>
  C1: every authentication failure of a protected request is to surface as 401, an
  unknown principal included. The code answers 404 there: a token that is correctly
  signed and not expired, whose subject \<^verbatim>\<open>ghost\<close> is not in the seeded store, gets
  \<^verbatim>\<open>HTTPException(status_code=404, detail="User not found")\<close> after one lookup of
  \<^verbatim>\<open>user:ghost\<close>. The docstring of \<^verbatim>\<open>get_current_user\<close> promises 401 for this case.
\<close>

theorem C1_unknown_principal_is_404:
  "get_current_user seeded_mc 1000
     (jwt_encode [(''sub'', PStr ''ghost''), (''exp'', PInt 1120)] SECRET_KEY ALGORITHM) =
     (Inl (HTTPException 404 ''User not found''), [McGet ''user:ghost''])
   \<and> status_of (fst (get_current_user seeded_mc 1000
        (jwt_encode [(''sub'', PStr ''ghost''), (''exp'', PInt 1120)] SECRET_KEY ALGORITHM))) = 404"
proof -
  have d: "jwt_decode (jwt_encode [(''sub'', PStr ''ghost''), (''exp'', PInt 1120)] SECRET_KEY ALGORITHM)
             SECRET_KEY [ALGORITHM] 1000 = Inr [(''sub'', PStr ''ghost''), (''exp'', PInt 1120)]"
    by (simp add: decode_signed)
  have s: "seeded_mc ''user:ghost'' = Inr None"
    by (simp add: seeded_mc_accepted seeded_keys)
  show ?thesis
    by (simp add: get_current_user_decoded [OF d] dict_get_def s)
qed

text \<open>
  C2: a correctly signed token whose \<^verbatim>\<open>exp\<close> is at or before the current time is
  answered with "Token expired", which is not the answer to a forged token ("Invalid
  token"), whatever the store holds and whatever its subject is. The signature is looked
  at first: the same expired claim set signed with any other key is answered with
  "Invalid token".
\<close>

theorem C2_expired_token_is_token_expired:
  assumes "map_of payload ''exp'' = Some (PInt e)" and "e \<le> now"
  shows "get_current_user mc now (jwt_encode payload SECRET_KEY ALGORITHM) =
           (Inl (HTTPException 401 ''Token expired''), [])
       \<and> fst (get_current_user mc now (jwt_encode payload SECRET_KEY ALGORITHM)) \<noteq>
           Inl (HTTPException 401 ''Invalid token'')
       \<and> (key \<noteq> SECRET_KEY \<longrightarrow>
            get_current_user mc now (jwt_encode payload key ALGORITHM) =
              (Inl (HTTPException 401 ''Invalid token''), []))"
  using assms by (simp add: get_current_user_def decode_signed decode_other_key)

text \<open>The seeded store, john's token at the very second it expires, and a forged copy.\<close>

theorem C2_expired_token_witness:
  "map_of [(''sub'', PStr ''john''), (''exp'', PInt 1120)] ''exp'' = Some (PInt 1120)
   \<and> (1120::int) \<le> 1120
   \<and> get_current_user seeded_mc 1120
        (jwt_encode [(''sub'', PStr ''john''), (''exp'', PInt 1120)] SECRET_KEY ALGORITHM) =
        (Inl (HTTPException 401 ''Token expired''), [])
   \<and> ''forged-key'' \<noteq> SECRET_KEY
   \<and> get_current_user seeded_mc 1120
        (jwt_encode [(''sub'', PStr ''john''), (''exp'', PInt 1120)] ''forged-key'' ALGORITHM) =
        (Inl (HTTPException 401 ''Invalid token''), [])"
  using C2_expired_token_is_token_expired
    [of "[(''sub'', PStr ''john''), (''exp'', PInt 1120)]" 1120 1120 seeded_mc "''forged-key''"]
  by (simp add: SECRET_KEY_def)

text \<open>
  C8: a token that decodes (correctly signed, not expired) and whose \<^verbatim>\<open>sub\<close> is missing
  or the empty string is answered with 401 "Invalid token payload", and the store is not
  read: the request's list of events is empty.
\<close>

theorem C8_missing_subject_is_malformed:
  assumes "jwt_decode tok SECRET_KEY [ALGORITHM] now = Inr payload"
      and "map_of payload ''sub'' = None \<or> map_of payload ''sub'' = Some (PStr [])"
  shows "get_current_user mc now tok = (Inl (HTTPException 401 ''Invalid token payload''), [])
       \<and> status_of (fst (get_current_user mc now tok)) = 401"
  using assms(2) by (auto simp add: get_current_user_decoded [OF assms(1)] dict_get_def)

text \<open>A token with no \<^verbatim>\<open>sub\<close> and one with the empty \<^verbatim>\<open>sub\<close>, on the seeded store.\<close>

theorem C8_missing_subject_witness:
  "jwt_decode (jwt_encode [(''exp'', PInt 1120)] SECRET_KEY ALGORITHM) SECRET_KEY [ALGORITHM] 1000 =
     Inr [(''exp'', PInt 1120)]
   \<and> map_of [(''exp'', PInt 1120)] ''sub'' = None
   \<and> get_current_user seeded_mc 1000 (jwt_encode [(''exp'', PInt 1120)] SECRET_KEY ALGORITHM) =
        (Inl (HTTPException 401 ''Invalid token payload''), [])
   \<and> jwt_decode (jwt_encode [(''sub'', PStr []), (''exp'', PInt 1120)] SECRET_KEY ALGORITHM)
        SECRET_KEY [ALGORITHM] 1000 = Inr [(''sub'', PStr []), (''exp'', PInt 1120)]
   \<and> map_of [(''sub'', PStr []), (''exp'', PInt 1120)] ''sub'' = Some (PStr [])
   \<and> get_current_user seeded_mc 1000
        (jwt_encode [(''sub'', PStr []), (''exp'', PInt 1120)] SECRET_KEY ALGORITHM) =
        (Inl (HTTPException 401 ''Invalid token payload''), [])"
proof -
  have d1: "jwt_decode (jwt_encode [(''exp'', PInt 1120)] SECRET_KEY ALGORITHM) SECRET_KEY [ALGORITHM] 1000 =
     Inr [(''exp'', PInt 1120)]"
    by (simp add: decode_signed)
  have s1: "map_of [(''exp'', PInt 1120)] ''sub'' = None \<or>
            map_of [(''exp'', PInt 1120)] ''sub'' = Some (PStr [])" by simp
  have d2: "jwt_decode (jwt_encode [(''sub'', PStr []), (''exp'', PInt 1120)] SECRET_KEY ALGORITHM)
        SECRET_KEY [ALGORITHM] 1000 = Inr [(''sub'', PStr []), (''exp'', PInt 1120)]"
    by (simp add: decode_signed)
  have s2: "map_of [(''sub'', PStr []), (''exp'', PInt 1120)] ''sub'' = None \<or>
            map_of [(''sub'', PStr []), (''exp'', PInt 1120)] ''sub'' = Some (PStr [])" by simp
  from C8_missing_subject_is_malformed [OF d1 s1, of seeded_mc]
       C8_missing_subject_is_malformed [OF d2 s2, of seeded_mc] d1 d2
  show ?thesis by simp
qed

section \<open>Issuing a token\<close>

text \<open>
  C7: for every username and every instant, the token issued for the dictionary
  \<^verbatim>\<open>{"sub": username}\<close> with no custom duration signs exactly the claim set
  \<^verbatim>\<open>{sub: username, exp: now + TTL}\<close>, the TTL being the configured 2 minutes.
\<close>

theorem C7_issued_claim_set:
  "fst (create_access_token (snd (heap_new h [(''sub'', PStr uname)]))
          (fst (heap_new h [(''sub'', PStr uname)])) None now) =
     jwt_encode [(''sub'', PStr uname), (''exp'', PInt (now + 2 * 60))] SECRET_KEY ALGORITHM
   \<and> timedelta_minutes ACCESS_TOKEN_EXPIRE_MINUTES = 2 * 60"
  by (simp add: heap_new_def create_access_token_eq timedelta_minutes_def
      ACCESS_TOKEN_EXPIRE_MINUTES_def Let_def)

text \<open>
  C10: \<^verbatim>\<open>create_access_token\<close> leaves the dictionary its \<^verbatim>\<open>data\<close> argument refers to
  as it was; indeed every object that was on the heap before the call is unchanged, the
  only effect being the new dictionary (the copy that received \<^verbatim>\<open>exp\<close>).
\<close>

theorem C10_data_is_not_modified:
  assumes "data < length h"
  shows "snd (create_access_token h data expires_delta now) ! data = h ! data
       \<and> take (length h) (snd (create_access_token h data expires_delta now)) = h"
  using assms by (simp add: create_access_token_eq Let_def nth_append)

text \<open>The heap of a login of john at time 1000: the literal, then the updated copy.\<close>

theorem C10_data_is_not_modified_witness:
  "(0::nat) < length [[(''sub'', PStr ''john'')]]
   \<and> snd (create_access_token [[(''sub'', PStr ''john'')]] 0 None 1000) ! 0 = [(''sub'', PStr ''john'')]
   \<and> snd (create_access_token [[(''sub'', PStr ''john'')]] 0 None 1000) =
        [[(''sub'', PStr ''john'')], [(''sub'', PStr ''john''), (''exp'', PInt 1120)]]"
proof -
  have h: "(0::nat) < length [[(''sub'', PStr ''john'')]]" by simp
  have e: "snd (create_access_token [[(''sub'', PStr ''john'')]] 0 None 1000) =
        [[(''sub'', PStr ''john'')], [(''sub'', PStr ''john''), (''exp'', PInt 1120)]]"
    by (simp add: create_access_token_eq Let_def)
  from C10_data_is_not_modified [OF h, of None 1000] h e
  show ?thesis by simp
qed

section \<open>Login followed by authentication\<close>

text \<open>
  C3, as stated, fails for the empty username. The store \<open>nameless_db\<close> keeps a complete
  record under the empty username; the login with its password succeeds and issues a
  token whose \<^verbatim>\<open>sub\<close> is the empty string, and \<^verbatim>\<open>get_current_user\<close> rejects that
  token at once (\<^verbatim>\<open>if not username\<close>) with 401 "Invalid token payload".
\<close>

theorem C3_empty_username_counterexample:
  "fst (login demo_verify nameless_db 1000 \<lparr>username = [], password = ''pword''\<rparr>) =
     Inr \<lparr>access_token = jwt_encode [(''sub'', PStr []), (''exp'', PInt 1120)] SECRET_KEY ALGORITHM,
          token_type = ''bearer''\<rparr>
   \<and> fst (get_current_user nameless_db 1000
        (jwt_encode [(''sub'', PStr []), (''exp'', PInt 1120)] SECRET_KEY ALGORITHM)) =
     Inl (HTTPException 401 ''Invalid token payload'')"
proof -
  have s: "nameless_db (''user:'' @ []) = Inr (Some nameless)"
    by (simp add: nameless_db_def mc_client_def key_refused_def)
  have v: "demo_verify ''pword'' (dict_get_default nameless ''hashed_password'' (PStr [])) = Inr True"
    by (simp add: nameless_def demo_verify_def dict_get_default_def hash_pw_def)
  have u: "map_of nameless ''username'' = Some (PStr [])"
    by (simp add: nameless_def)
  have l: "fst (login demo_verify nameless_db 1000 \<lparr>username = [], password = ''pword''\<rparr>) =
     Inr \<lparr>access_token = jwt_encode [(''sub'', PStr []), (''exp'', PInt 1120)] SECRET_KEY ALGORITHM,
          token_type = ''bearer''\<rparr>"
    using login_issued [of nameless_db "[]" nameless "PStr []" demo_verify "''pword''" 1000, OF s u v]
    by simp
  have d: "jwt_decode (jwt_encode [(''sub'', PStr []), (''exp'', PInt 1120)] SECRET_KEY ALGORITHM)
             SECRET_KEY [ALGORITHM] 1000 = Inr [(''sub'', PStr []), (''exp'', PInt 1120)]"
    by (simp add: decode_signed)
  have g: "fst (get_current_user nameless_db 1000
        (jwt_encode [(''sub'', PStr []), (''exp'', PInt 1120)] SECRET_KEY ALGORITHM)) =
     Inl (HTTPException 401 ''Invalid token payload'')"
    by (simp add: get_current_user_decoded [OF d] dict_get_def)
  from l g show ?thesis by simp
qed

text \<open>
  C3 (amended): for every non-empty username and every password that match a record of
  the store (the record kept under \<^verbatim>\<open>user:<username>\<close> carries that username, and the
  password verifies against its stored hash), the token that login issues at time
  \<open>now\<close>, presented to \<^verbatim>\<open>get_current_user\<close> on the same store at any time before
  \<open>now\<close> plus the 2 minutes, is accepted, and the answer is exactly that record.
\<close>

theorem C3_login_then_authenticate:
  assumes "uname \<noteq> []"
      and "mc (''user:'' @ uname) = Inr (Some user)"
      and "map_of user ''username'' = Some (PStr uname)"
      and "map_of user ''hashed_password'' = Some h"
      and "pwd_verify pw h = Inr True"
      and "now' < now + timedelta_minutes ACCESS_TOKEN_EXPIRE_MINUTES"
  shows "fst (login pwd_verify mc now \<lparr>username = uname, password = pw\<rparr>) =
           Inr \<lparr>access_token =
                  jwt_encode [(''sub'', PStr uname),
                              (''exp'', PInt (now + timedelta_minutes ACCESS_TOKEN_EXPIRE_MINUTES))]
                    SECRET_KEY ALGORITHM,
                token_type = ''bearer''\<rparr>
       \<and> fst (get_current_user mc now'
              (jwt_encode [(''sub'', PStr uname),
                           (''exp'', PInt (now + timedelta_minutes ACCESS_TOKEN_EXPIRE_MINUTES))]
                 SECRET_KEY ALGORITHM)) = Inr user"
proof -
  have ttl: "timedelta_minutes ACCESS_TOKEN_EXPIRE_MINUTES = 120"
    by (simp add: timedelta_minutes_def ACCESS_TOKEN_EXPIRE_MINUTES_def)
  have v: "pwd_verify pw (dict_get_default user ''hashed_password'' (PStr [])) = Inr True"
    using assms(4,5) by (simp add: dict_get_default_def)
  have l: "fst (login pwd_verify mc now \<lparr>username = uname, password = pw\<rparr>) =
           Inr \<lparr>access_token = jwt_encode [(''sub'', PStr uname), (''exp'', PInt (now + 120))]
                    SECRET_KEY ALGORITHM, token_type = ''bearer''\<rparr>"
    using login_issued [of mc uname user "PStr uname" pwd_verify pw now] assms(2,3) v by simp
  have d: "jwt_decode (jwt_encode [(''sub'', PStr uname), (''exp'', PInt (now + 120))] SECRET_KEY ALGORITHM)
             SECRET_KEY [ALGORITHM] now' = Inr [(''sub'', PStr uname), (''exp'', PInt (now + 120))]"
    using assms(6) by (simp add: decode_signed ttl)
  from assms(3) have ne: "user \<noteq> []" by auto
  have g: "fst (get_current_user mc now'
              (jwt_encode [(''sub'', PStr uname), (''exp'', PInt (now + 120))] SECRET_KEY ALGORITHM)) = Inr user"
    using assms(1,2) ne by (simp add: get_current_user_decoded [OF d] dict_get_def)
  from l g show ?thesis by (simp add: ttl)
qed

text \<open>john logs in at time 1000 and presents the token one second before it expires.\<close>

theorem C3_login_then_authenticate_witness:
  "''john'' \<noteq> []
   \<and> seeded_mc (''user:'' @ ''john'') = Inr (Some john)
   \<and> map_of john ''username'' = Some (PStr ''john'')
   \<and> map_of john ''hashed_password'' = Some (PStr (hash_pw ''johnpword''))
   \<and> demo_verify ''johnpword'' (PStr (hash_pw ''johnpword'')) = Inr True
   \<and> (1119::int) < 1000 + timedelta_minutes ACCESS_TOKEN_EXPIRE_MINUTES
   \<and> fst (login demo_verify seeded_mc 1000 \<lparr>username = ''john'', password = ''johnpword''\<rparr>) =
        Inr \<lparr>access_token = jwt_encode [(''sub'', PStr ''john''), (''exp'', PInt 1120)] SECRET_KEY ALGORITHM,
             token_type = ''bearer''\<rparr>
   \<and> fst (get_current_user seeded_mc 1119
          (jwt_encode [(''sub'', PStr ''john''), (''exp'', PInt 1120)] SECRET_KEY ALGORITHM)) = Inr john"
proof -
  have h1: "''john'' \<noteq> []" by simp
  have h2: "seeded_mc (''user:'' @ ''john'') = Inr (Some john)"
    by (simp add: seeded_mc_accepted seeded_keys)
  have h3: "map_of john ''username'' = Some (PStr ''john'')" by (simp add: john_def)
  have h4: "map_of john ''hashed_password'' = Some (PStr (hash_pw ''johnpword''))" by (simp add: john_def)
  have h5: "demo_verify ''johnpword'' (PStr (hash_pw ''johnpword'')) = Inr True"
    by (simp add: demo_verify_def hash_pw_def)
  have h6: "(1119::int) < 1000 + timedelta_minutes ACCESS_TOKEN_EXPIRE_MINUTES"
    by (simp add: timedelta_minutes_def ACCESS_TOKEN_EXPIRE_MINUTES_def)
  have ttl: "timedelta_minutes ACCESS_TOKEN_EXPIRE_MINUTES = 120"
    by (simp add: timedelta_minutes_def ACCESS_TOKEN_EXPIRE_MINUTES_def)
  note c = C3_login_then_authenticate
         [of "''john''" seeded_mc john "PStr (hash_pw ''johnpword'')" demo_verify "''johnpword''" 1119 1000,
          OF h1 h2 h3 h4 h5 h6]
  from c h1 h2 h3 h4 h5 h6 show ?thesis by (simp add: ttl)
qed

section \<open>Failing logins\<close>

text \<open>
  C4, as stated, fails when the user record is absent: the \<^verbatim>\<open>or\<close> in login
  short-circuits, and the request for the unknown user \<^verbatim>\<open>mallory\<close> reads the store and
  answers 401 without any password verification.
\<close>

theorem C4_unknown_user_counterexample:
  "login demo_verify seeded_mc 1000 \<lparr>username = ''mallory'', password = ''guess''\<rparr> =
     (Inl (HTTPException 401 ''Incorrect username or password''), [McGet ''user:mallory''])
   \<and> PwdVerify ''guess'' (PStr []) \<notin>
       set (snd (login demo_verify seeded_mc 1000 \<lparr>username = ''mallory'', password = ''guess''\<rparr>))"
proof -
  have s: "seeded_mc (''user:'' @ ''mallory'') = Inr None \<or>
           seeded_mc (''user:'' @ ''mallory'') = Inr (Some [])"
    by (simp add: seeded_mc_accepted seeded_keys)
  show ?thesis
    using login_no_record [of seeded_mc "''mallory''" demo_verify 1000 "''guess''", OF s] by simp
qed

text \<open>
  C4 (amended): when the lookup returns a non-empty record for the username and the
  record lacks \<^verbatim>\<open>hashed_password\<close>, the password verification is executed, once,
  against the empty string; when the lookup returns no record (or an empty one) the
  verification is not executed: the request reads the store and answers the generic 401.
\<close>

theorem C4_verification_runs_only_on_a_record:
  "(mc (''user:'' @ uname) = Inr (Some user) \<and> user \<noteq> [] \<and>
    map_of user ''hashed_password'' = None \<longrightarrow>
      snd (login pwd_verify mc now \<lparr>username = uname, password = pw\<rparr>) =
        [McGet (''user:'' @ uname), PwdVerify pw (PStr [])])
   \<and> (mc (''user:'' @ uname) = Inr None \<or> mc (''user:'' @ uname) = Inr (Some []) \<longrightarrow>
        login pwd_verify mc now \<lparr>username = uname, password = pw\<rparr> =
          (Inl (HTTPException 401 ''Incorrect username or password''), [McGet (''user:'' @ uname)]))"
  by (auto simp add: login_def get_user_def verify_password_def dict_get_default_def heap_new_def
      split: sum.splits)

text \<open>A record without \<^verbatim>\<open>hashed_password\<close> (carol) and a user the store lacks (dave).\<close>

theorem C4_verification_witness:
  "mc_client (map_of [(''user:carol'', [(''username'', PStr ''carol'')])]) (''user:'' @ ''carol'') =
      Inr (Some [(''username'', PStr ''carol'')])
   \<and> [(''username'', PStr ''carol'')] \<noteq> []
   \<and> map_of [(''username'', PStr ''carol'')] ''hashed_password'' = None
   \<and> snd (login demo_verify (mc_client (map_of [(''user:carol'', [(''username'', PStr ''carol'')])])) 1000
            \<lparr>username = ''carol'', password = ''guess''\<rparr>) =
        [McGet ''user:carol'', PwdVerify ''guess'' (PStr [])]
   \<and> mc_client (map_of [(''user:carol'', [(''username'', PStr ''carol'')])]) (''user:'' @ ''dave'') =
        Inr None
   \<and> login demo_verify (mc_client (map_of [(''user:carol'', [(''username'', PStr ''carol'')])])) 1000
            \<lparr>username = ''dave'', password = ''guess''\<rparr> =
        (Inl (HTTPException 401 ''Incorrect username or password''), [McGet ''user:dave''])"
proof -
  let ?mc = "mc_client (map_of [(''user:carol'', [(''username'', PStr ''carol'')])])"
  have c: "?mc (''user:'' @ ''carol'') = Inr (Some [(''username'', PStr ''carol'')])"
    by (simp add: mc_client_def key_refused_def)
  have d: "?mc (''user:'' @ ''dave'') = Inr None"
    by (simp add: mc_client_def key_refused_def)
  have n: "[(''username'', PStr ''carol'')] \<noteq> []" by simp
  have m: "map_of [(''username'', PStr ''carol'')] ''hashed_password'' = None" by simp
  from C4_verification_runs_only_on_a_record
      [of ?mc "''carol''" "[(''username'', PStr ''carol'')]" demo_verify 1000 "''guess''"]
    C4_verification_runs_only_on_a_record
      [of ?mc "''dave''" "[(''username'', PStr ''carol'')]" demo_verify 1000 "''guess''"]
    c d n m
  show ?thesis by simp
qed




section \<open>Authorization\<close>



text \<open>
  C6, as stated, fails for an administrator whose record has no \<^verbatim>\<open>full_name\<close>: the
  token authenticates, the \<^verbatim>\<open>admin\<close> flag is true, and the route raises
  \<^verbatim>\<open>KeyError\<close> at \<^verbatim>\<open>user['full_name']\<close>, a server error instead of the 200 payload.
\<close>

theorem C6_admin_without_full_name_counterexample:
  "get_current_user root_db 1000
       (jwt_encode [(''sub'', PStr ''root''), (''exp'', PInt 1120)] SECRET_KEY ALGORITHM) =
     (Inr root_user, [McGet ''user:root''])
   \<and> map_of root_user ''admin'' = Some (PBool True)
   \<and> fst (depends_get_current_user protected_admin_route root_db 1000
            (jwt_encode [(''sub'', PStr ''root''), (''exp'', PInt 1120)] SECRET_KEY ALGORITHM)) =
        Inl (KeyError ''full_name'')
   \<and> status_of (fst (depends_get_current_user protected_admin_route root_db 1000
            (jwt_encode [(''sub'', PStr ''root''), (''exp'', PInt 1120)] SECRET_KEY ALGORITHM))) = 500"
proof -
  have d: "jwt_decode (jwt_encode [(''sub'', PStr ''root''), (''exp'', PInt 1120)] SECRET_KEY ALGORITHM)
              SECRET_KEY [ALGORITHM] 1000 = Inr [(''sub'', PStr ''root''), (''exp'', PInt 1120)]"
    by (simp add: decode_signed)
  have s: "root_db ''user:root'' = Inr (Some root_user)"
    by (simp add: root_db_def mc_client_def key_refused_def)
  have ne: "root_user \<noteq> []" by (simp add: root_user_def)
  have g: "get_current_user root_db 1000
       (jwt_encode [(''sub'', PStr ''root''), (''exp'', PInt 1120)] SECRET_KEY ALGORITHM) =
     (Inr root_user, [McGet ''user:root''])"
    by (simp add: get_current_user_decoded [OF d] dict_get_def s ne)
  have a: "map_of root_user ''admin'' = Some (PBool True)" by (simp add: root_user_def)
  have r: "protected_admin_route root_user = Inl (KeyError ''full_name'')"
    by (simp add: protected_admin_route_def dict_get_def dict_index_def root_user_def)
  have p: "fst (depends_get_current_user protected_admin_route root_db 1000
            (jwt_encode [(''sub'', PStr ''root''), (''exp'', PInt 1120)] SECRET_KEY ALGORITHM)) =
        Inl (KeyError ''full_name'')"
    unfolding depends_get_current_user_def g by (simp add: r)
  from g a p show ?thesis by simp
qed

text \<open>
  C6 (amended): for an authenticated principal the admin route looks at the \<^verbatim>\<open>admin\<close>
  flag: 403 "Admin access required" when the flag is missing or false, and, when the flag
  is true and the record has a \<^verbatim>\<open>full_name\<close>, a 200 payload (the welcome message
  with that name).
\<close>

theorem C6_admin_gate:
  assumes "get_current_user mc now tok = (Inr user, tr)"
  shows "(map_of user ''admin'' = None \<or> map_of user ''admin'' = Some (PBool False) \<longrightarrow>
            fst (depends_get_current_user protected_admin_route mc now tok) =
              Inl (HTTPException 403 ''Admin access required'')
          \<and> status_of (fst (depends_get_current_user protected_admin_route mc now tok)) = 403)
       \<and> (map_of user ''admin'' = Some (PBool True) \<and> map_of user ''full_name'' = Some n \<longrightarrow>
            fst (depends_get_current_user protected_admin_route mc now tok) =
              Inr [(''message'',
                    PStr (''Welcome Admin '' @ py_str n @ ''! You have access to this route.''))]
          \<and> status_of (fst (depends_get_current_user protected_admin_route mc now tok)) = 200)"
  using assms
  by (auto simp add: depends_get_current_user_def protected_admin_route_def dict_get_def dict_index_def)

text \<open>jane (not an admin) is denied and john (an admin) is welcomed.\<close>

theorem C6_admin_gate_witness:
  "get_current_user seeded_mc 1000
       (jwt_encode [(''sub'', PStr ''jane''), (''exp'', PInt 1120)] SECRET_KEY ALGORITHM) =
     (Inr jane, [McGet ''user:jane''])
   \<and> map_of jane ''admin'' = Some (PBool False)
   \<and> fst (depends_get_current_user protected_admin_route seeded_mc 1000
            (jwt_encode [(''sub'', PStr ''jane''), (''exp'', PInt 1120)] SECRET_KEY ALGORITHM)) =
        Inl (HTTPException 403 ''Admin access required'')
   \<and> get_current_user seeded_mc 1000
       (jwt_encode [(''sub'', PStr ''john''), (''exp'', PInt 1120)] SECRET_KEY ALGORITHM) =
     (Inr john, [McGet ''user:john''])
   \<and> map_of john ''admin'' = Some (PBool True)
   \<and> map_of john ''full_name'' = Some (PStr ''John Doe'')
   \<and> fst (depends_get_current_user protected_admin_route seeded_mc 1000
            (jwt_encode [(''sub'', PStr ''john''), (''exp'', PInt 1120)] SECRET_KEY ALGORITHM)) =
        Inr [(''message'', PStr ''Welcome Admin John Doe! You have access to this route.'')]"
proof -
  have dj: "jwt_decode (jwt_encode [(''sub'', PStr ''jane''), (''exp'', PInt 1120)] SECRET_KEY ALGORITHM)
              SECRET_KEY [ALGORITHM] 1000 = Inr [(''sub'', PStr ''jane''), (''exp'', PInt 1120)]"
    by (simp add: decode_signed)
  have sj: "seeded_mc ''user:jane'' = Inr (Some jane)"
    by (simp add: seeded_mc_accepted seeded_keys)
  have gj: "get_current_user seeded_mc 1000
       (jwt_encode [(''sub'', PStr ''jane''), (''exp'', PInt 1120)] SECRET_KEY ALGORITHM) =
     (Inr jane, [McGet ''user:jane''])"
    by (simp add: get_current_user_decoded [OF dj] dict_get_def sj) (simp add: jane_def)
  have aj: "map_of jane ''admin'' = Some (PBool False)" by (simp add: jane_def)
  have dh: "jwt_decode (jwt_encode [(''sub'', PStr ''john''), (''exp'', PInt 1120)] SECRET_KEY ALGORITHM)
              SECRET_KEY [ALGORITHM] 1000 = Inr [(''sub'', PStr ''john''), (''exp'', PInt 1120)]"
    by (simp add: decode_signed)
  have sh: "seeded_mc ''user:john'' = Inr (Some john)"
    by (simp add: seeded_mc_accepted seeded_keys)
  have gh: "get_current_user seeded_mc 1000
       (jwt_encode [(''sub'', PStr ''john''), (''exp'', PInt 1120)] SECRET_KEY ALGORITHM) =
     (Inr john, [McGet ''user:john''])"
    by (simp add: get_current_user_decoded [OF dh] dict_get_def sh) (simp add: john_def)
  have ah: "map_of john ''admin'' = Some (PBool True)" by (simp add: john_def)
  have fh: "map_of john ''full_name'' = Some (PStr ''John Doe'')" by (simp add: john_def)
  from C6_admin_gate [OF gj] C6_admin_gate [OF gh, of "PStr ''John Doe''"] gj aj gh ah fh
  show ?thesis by simp
qed

end
